theory Spec2Isabelle
  imports Main "HOL-Library.List_Lexorder" "HOL-Library.Char_ord" "HOL-Library.Monad_Syntax"
begin

section \<open>The job queue of backend/server.js\<close>

text \<open>
  The backend keeps one SQLite table, \<^verbatim>\<open>queue\<close>, and serves it through five Express
  handlers and one cron callback. Each handler performs exactly one statement on the
  table; the cron callback performs one \<^verbatim>\<open>SELECT\<close> and then one \<^verbatim>\<open>UPDATE\<close> per
  selected row, with an \<^verbatim>\<open>await\<close> before each of them.

  Everything the code obtains from outside is an argument of the model:
  \<^item> \<open>rnd\<close>: the string \<^verbatim>\<open>Math.random().toString(36)\<close>;
  \<^item> \<open>now\<close>, \<open>clk i\<close>: the string \<^verbatim>\<open>new Date().toISOString()\<close> read at that point;
  \<^item> \<open>plus1h\<close>: the string \<^verbatim>\<open>new Date(Date.now() + 60*60*1000).toISOString()\<close>;
  \<^item> \<open>fault\<close>, \<open>flt i\<close>: \<open>Some m\<close> when the driver rejects the statement with an
    error whose message is \<open>m\<close> (the statement then changes nothing), \<open>None\<close> when
    the driver executes it.
  Timestamps are the strings the code stores; \<open>\<le>\<close> on them is the bytewise
  lexicographic order that SQLite applies to \<^verbatim>\<open>TEXT\<close> values.
\<close>

subsection \<open>Request values\<close>

text \<open>
  A field of the JSON body that \<^verbatim>\<open>bodyParser.json\<close> hands to a handler. The handlers
  do two things with a field: they test it (\<^verbatim>\<open>!x\<close>, \<^verbatim>\<open>x || y\<close>) and they pass it to
  the database driver as a statement parameter. A number carries whether it is
  non-zero and the text under which SQLite keeps it in a \<^verbatim>\<open>TEXT\<close> column
  (\<^verbatim>\<open>5\<close> is kept as \<^verbatim>\<open>'5'\<close>); an array or object carries the text of its string
  conversion (\<^verbatim>\<open>'[object Object]'\<close> for an object). These texts are made by the driver
  and by SQLite, not by code of the repository.
\<close>

datatype jsval =
    JUndefined
  | JNull
  | JString string
  | JBool bool
  | JNumber bool string
  | JObject string

type_synonym body = "string \<rightharpoonup> jsval"

text \<open>Destructuring \<^verbatim>\<open>const { k } = req.body || {}\<close>: an absent key reads as undefined.\<close>

definition field :: "body \<Rightarrow> string \<Rightarrow> jsval" where
  "field b k = (case b k of None \<Rightarrow> JUndefined | Some v \<Rightarrow> v)"

text \<open>
  JavaScript truthiness, the test behind \<^verbatim>\<open>!x\<close> and \<^verbatim>\<open>x || y\<close>: undefined, null,
  the empty string, \<^verbatim>\<open>false\<close> and zero are falsy; every array and object is truthy.
\<close>

fun truthy :: "jsval \<Rightarrow> bool" where
  "truthy JUndefined = False"
| "truthy JNull = False"
| "truthy (JString s) = (s \<noteq> [])"
| "truthy (JBool v) = v"
| "truthy (JNumber nonzero t) = nonzero"
| "truthy (JObject t) = True"

text \<open>\<^verbatim>\<open>x || y\<close>\<close>

definition or_else :: "jsval \<Rightarrow> jsval \<Rightarrow> jsval" where
  "or_else x y = (if truthy x then x else y)"

text \<open>
  What a statement parameter puts into a \<^verbatim>\<open>TEXT\<close> column: \<open>None\<close> is SQL \<^verbatim>\<open>NULL\<close>
  (the driver binds \<^verbatim>\<open>null\<close> as \<^verbatim>\<open>NULL\<close> and leaves an undefined parameter unbound,
  which SQLite reads as \<^verbatim>\<open>NULL\<close>); a boolean is bound as the integer 1 or 0.
\<close>

fun bind_param :: "jsval \<Rightarrow> string option" where
  "bind_param JUndefined = None"
| "bind_param JNull = None"
| "bind_param (JString s) = Some s"
| "bind_param (JBool v) = Some (if v then ''1'' else ''0'')"
| "bind_param (JNumber nonzero t) = Some t"
| "bind_param (JObject t) = Some t"

subsection \<open>The table\<close>

text \<open>
  \<^verbatim>\<open>CREATE TABLE queue (id TEXT PRIMARY KEY, imageUrl TEXT, caption TEXT,
  scheduledAt TEXT, status TEXT, createdAt TEXT)\<close>.
  The columns that take their value from a request field can hold \<^verbatim>\<open>NULL\<close>
  (\<open>None\<close>); \<open>id\<close>, \<open>status\<close> and \<open>createdAt\<close> are always written with a string that
  the server makes itself.
\<close>

record row =
  id' :: string
  imageUrl :: "string option"
  caption :: "string option"
  scheduledAt :: "string option"
  status :: string
  createdAt :: string

type_synonym table = "row list"

text \<open>\<^verbatim>\<open>INSERT INTO queue ...\<close>: the primary key rejects an id that a stored row has.\<close>

definition db_insert :: "string option \<Rightarrow> row \<Rightarrow> table \<Rightarrow> string + table" where
  "db_insert fault r db =
     (case fault of
        Some m \<Rightarrow> Inl m
      | None \<Rightarrow>
          if id' r \<in> set (map id' db)
          then Inl ''SQLITE_CONSTRAINT: UNIQUE constraint failed: queue.id''
          else Inr (db @ [r]))"

text \<open>
  \<^verbatim>\<open>UPDATE queue SET status = ?, scheduledAt = ? WHERE id = ?\<close>. The id is a bound
  parameter; \<^verbatim>\<open>id = NULL\<close> holds for no row.
\<close>

definition db_update ::
  "string option \<Rightarrow> string \<Rightarrow> string \<Rightarrow> string option \<Rightarrow> table \<Rightarrow> string + table" where
  "db_update fault st t i db =
     (case fault of
        Some m \<Rightarrow> Inl m
      | None \<Rightarrow>
          Inr (map (\<lambda>r. if Some (id' r) = i then r\<lparr>status := st, scheduledAt := Some t\<rparr> else r)
                 db))"

text \<open>\<^verbatim>\<open>DELETE FROM queue WHERE id = ?\<close>\<close>

definition db_delete :: "string option \<Rightarrow> string \<Rightarrow> table \<Rightarrow> string + table" where
  "db_delete fault i db =
     (case fault of
        Some m \<Rightarrow> Inl m
      | None \<Rightarrow> Inr (filter (\<lambda>r. id' r \<noteq> i) db))"

text \<open>
  \<^verbatim>\<open>SELECT * FROM queue WHERE status = ? AND scheduledAt <= ?\<close>: a \<^verbatim>\<open>NULL\<close>
  \<open>scheduledAt\<close> never satisfies the comparison.
\<close>

definition is_due :: "string \<Rightarrow> string \<Rightarrow> row \<Rightarrow> bool" where
  "is_due st now r =
     (status r = st \<and> (case scheduledAt r of None \<Rightarrow> False | Some t \<Rightarrow> t \<le> now))"

definition db_select_due :: "string option \<Rightarrow> string \<Rightarrow> string \<Rightarrow> table \<Rightarrow> string + row list" where
  "db_select_due fault st now db =
     (case fault of
        Some m \<Rightarrow> Inl m
      | None \<Rightarrow> Inr (filter (is_due st now) db))"

text \<open>
  \<^verbatim>\<open>SELECT * FROM queue ORDER BY createdAt DESC\<close>. SQL leaves the order of rows with
  equal \<open>createdAt\<close> open; SQLite returns them in the order of insertion, and so does
  the model.
\<close>

definition db_select_all :: "string option \<Rightarrow> table \<Rightarrow> string + row list" where
  "db_select_all fault db =
     (case fault of
        Some m \<Rightarrow> Inl m
      | None \<Rightarrow> Inr (rev (sort_key createdAt (rev db))))"

subsection \<open>Handlers\<close>

text \<open>
  A handler answers with status 400 or 500 and \<^verbatim>\<open>{ error: message }\<close>, or with a JSON
  payload.
\<close>

datatype error = BadRequest string | ServerError string

datatype reply =
    CreationId string
  | PostResult string string
  | JobResult string jsval
  | Rows "row list"
  | OkTrue

text \<open>\<^verbatim>\<open>function makeId() { return Math.random().toString(36).slice(2, 10); }\<close>\<close>

definition makeId :: "string \<Rightarrow> string" where
  "makeId rnd = take 8 (drop 2 rnd)"

text \<open>\<^verbatim>\<open>POST /api/create_media\<close>\<close>

definition create_media ::
  "string \<Rightarrow> string \<Rightarrow> string option \<Rightarrow> body \<Rightarrow> table \<Rightarrow> (error + reply) \<times> table" where
  "create_media rnd now fault b db =
     (let imageUrl_v = field b ''imageUrl''; caption_v = field b ''caption'' in
      if \<not> truthy imageUrl_v then (Inl (BadRequest ''Missing imageUrl''), db)
      else
        let i = makeId rnd in
        case db_insert fault
               \<lparr>id' = i, imageUrl = bind_param imageUrl_v,
                caption = bind_param (or_else caption_v (JString [])),
                scheduledAt = None, status = ''created'', createdAt = now\<rparr> db of
          Inl m \<Rightarrow> (Inl (ServerError m), db)
        | Inr db' \<Rightarrow> (Inr (CreationId i), db'))"

text \<open>\<^verbatim>\<open>POST /api/publish_media\<close>\<close>

definition publish_media ::
  "string \<Rightarrow> string \<Rightarrow> string option \<Rightarrow> body \<Rightarrow> table \<Rightarrow> (error + reply) \<times> table" where
  "publish_media rnd now fault b db =
     (let creation_id = field b ''creation_id'' in
      if \<not> truthy creation_id then (Inl (BadRequest ''Missing creation_id''), db)
      else
        let postId = ''post_'' @ makeId rnd in
        case db_update fault ''published'' now (bind_param creation_id) db of
          Inl m \<Rightarrow> (Inl (ServerError m), db)
        | Inr db' \<Rightarrow> (Inr (PostResult postId now), db'))"

text \<open>\<^verbatim>\<open>POST /api/schedule\<close>\<close>

definition schedule ::
  "string \<Rightarrow> string \<Rightarrow> string \<Rightarrow> string option \<Rightarrow> body \<Rightarrow> table \<Rightarrow> (error + reply) \<times> table" where
  "schedule rnd plus1h now fault b db =
     (let imageUrl_v = field b ''imageUrl''; caption_v = field b ''caption'';
          scheduleTime = field b ''scheduleTime'' in
      if \<not> truthy imageUrl_v then (Inl (BadRequest ''Missing imageUrl''), db)
      else
        let i = makeId rnd;
            scheduledAt_v = or_else scheduleTime (JString plus1h) in
        case db_insert fault
               \<lparr>id' = i, imageUrl = bind_param imageUrl_v,
                caption = bind_param (or_else caption_v (JString [])),
                scheduledAt = bind_param scheduledAt_v, status = ''scheduled'',
                createdAt = now\<rparr> db of
          Inl m \<Rightarrow> (Inl (ServerError m), db)
        | Inr db' \<Rightarrow> (Inr (JobResult i scheduledAt_v), db'))"

text \<open>\<^verbatim>\<open>GET /api/queue\<close>\<close>

definition get_queue :: "string option \<Rightarrow> table \<Rightarrow> (error + reply) \<times> table" where
  "get_queue fault db =
     (case db_select_all fault db of
        Inl m \<Rightarrow> (Inl (ServerError m), db)
      | Inr rows \<Rightarrow> (Inr (Rows rows), db))"

text \<open>\<^verbatim>\<open>DELETE /api/queue/:id\<close>; the route parameter is always a string.\<close>

definition delete_queue :: "string option \<Rightarrow> string \<Rightarrow> table \<Rightarrow> (error + reply) \<times> table" where
  "delete_queue fault i db =
     (case db_delete fault i db of
        Inl m \<Rightarrow> (Inl (ServerError m), db)
      | Inr db' \<Rightarrow> (Inr OkTrue, db'))"

subsection \<open>The scheduler tick\<close>

text \<open>
  What the cron callback writes to the console: one \<open>Publishing\<close> line per row it
  starts on, and \<open>SchedulerError\<close> from the single \<^verbatim>\<open>catch\<close> around the whole body.
\<close>

datatype log = Publishing string | SchedulerError string

text \<open>
  The \<^verbatim>\<open>for (const row of due)\<close> loop, started at iteration \<open>k\<close>. Iteration \<open>k\<close>
  reads the clock (\<open>clk k\<close>) and runs its \<^verbatim>\<open>UPDATE\<close> (\<open>flt k\<close>). A rejected statement
  throws out of the loop into the \<^verbatim>\<open>catch\<close>. The loop works on the rows it was given
  and on the table as it is when the iteration runs: other handlers can run at each
  \<^verbatim>\<open>await\<close>, so \<open>due\<close> need not be what a \<^verbatim>\<open>SELECT\<close> on \<open>db\<close> would return.
\<close>

fun tick_loop ::
  "(nat \<Rightarrow> string) \<Rightarrow> (nat \<Rightarrow> string option) \<Rightarrow> nat \<Rightarrow> row list \<Rightarrow> table \<Rightarrow> log list \<times> table" where
  "tick_loop clk flt k [] db = ([], db)"
| "tick_loop clk flt k (r # due) db =
     (case db_update (flt k) ''published'' (clk k) (Some (id' r)) db of
        Inl m \<Rightarrow> ([Publishing (id' r), SchedulerError m], db)
      | Inr db' \<Rightarrow>
          (case tick_loop clk flt (Suc k) due db' of
             (lg, db'') \<Rightarrow> (Publishing (id' r) # lg, db'')))"

text \<open>One run of the cron callback with no other handler running in between.\<close>

definition tick ::
  "string \<Rightarrow> string option \<Rightarrow> (nat \<Rightarrow> string) \<Rightarrow> (nat \<Rightarrow> string option) \<Rightarrow> table \<Rightarrow> log list \<times> table" where
  "tick now sel_fault clk flt db =
     (case db_select_due sel_fault ''scheduled'' now db of
        Inl m \<Rightarrow> ([SchedulerError m], db)
      | Inr due \<Rightarrow> tick_loop clk flt 0 due db)"

text \<open>The primary key: no two stored rows share an id.\<close>

definition pk_ok :: "table \<Rightarrow> bool" where
  "pk_ok db = distinct (map id' db)"

subsection \<open>Instants\<close>









subsection \<open>Sample data\<close>

text \<open>Rows, clocks and fault schedules used to run the model on concrete inputs.\<close>

definition job_a :: row where
  "job_a = \<lparr>id' = ''a1b2c3d4'', imageUrl = Some ''http://x/a.jpg'', caption = Some [],
            scheduledAt = Some ''2024-01-01T00:02:00.000Z'', status = ''scheduled'',
            createdAt = ''2024-01-01T00:00:00.000Z''\<rparr>"

definition job_b :: row where
  "job_b = \<lparr>id' = ''b5c6d7e8'', imageUrl = Some ''http://x/b.jpg'', caption = Some ''second'',
            scheduledAt = Some ''2024-01-01T00:02:30.000Z'', status = ''scheduled'',
            createdAt = ''2024-01-01T00:00:10.000Z''\<rparr>"

definition job_c :: row where
  "job_c = \<lparr>id' = ''c9d0e1f2'', imageUrl = Some ''http://x/c.jpg'', caption = Some ''third'',
            scheduledAt = Some ''2024-01-01T00:02:45.000Z'', status = ''scheduled'',
            createdAt = ''2024-01-01T00:00:20.000Z''\<rparr>"

definition job_p :: row where
  "job_p = \<lparr>id' = ''p9q8r7s6'', imageUrl = Some ''http://x/p.jpg'', caption = Some ''done'',
            scheduledAt = Some ''2024-01-01T00:01:00.000Z'', status = ''published'',
            createdAt = ''2024-01-01T00:00:30.000Z''\<rparr>"

text \<open>A clock that reads \<open>t0\<close> in iteration 0 and \<open>t1\<close> afterwards.\<close>

definition clock2 :: "string \<Rightarrow> string \<Rightarrow> nat \<Rightarrow> string" where
  "clock2 t0 t1 k = (if k = 0 then t0 else t1)"

text \<open>Every statement of the loop is executed.\<close>

definition no_faults :: "nat \<Rightarrow> string option" where
  "no_faults k = None"

text \<open>The statement of iteration \<open>n\<close> is rejected with message \<open>m\<close>.\<close>

definition fault_at :: "nat \<Rightarrow> string \<Rightarrow> nat \<Rightarrow> string option" where
  "fault_at n m k = (if k = n then Some m else None)"

section \<open>Properties\<close>

subsection \<open>Auxiliary facts about the statements\<close>

lemma truthy_bound: "truthy v \<Longrightarrow> \<exists>i. bind_param v = Some i"
  by (cases v) simp_all

lemma update_absent:
  "i \<notin> set (map id' db) \<Longrightarrow>
   map (\<lambda>r. if id' r = i then r\<lparr>status := st, scheduledAt := Some t\<rparr> else r) db = db"
  by (induction db) auto

lemma update_ids:
  "map id' (map (\<lambda>r. if P r then r\<lparr>status := st, scheduledAt := Some t\<rparr> else r) db)
   = map id' db"
  by (induction db) simp_all

lemma db_update_None:
  "db_update None st t (Some i) db
   = Inr (map (\<lambda>r. if id' r = i then r\<lparr>status := st, scheduledAt := Some t\<rparr> else r) db)"
  by (simp add: db_update_def)

lemma db_update_Some: "db_update (Some m) st t i db = Inl m"
  by (simp add: db_update_def)

lemma db_update_ids:
  assumes "db_update fault st t i db = Inr db'"
  shows "map id' db' = map id' db"
proof (cases fault)
  case None
  with assms have "db' = map (\<lambda>r. if Some (id' r) = i
                                   then r\<lparr>status := st, scheduledAt := Some t\<rparr> else r) db"
    by (simp add: db_update_def)
  then show ?thesis by (simp only: update_ids)
next
  case (Some m)
  with assms show ?thesis by (simp add: db_update_Some)
qed

lemma db_update_hit:
  assumes "db_update None st t (Some i) db = Inr db'" and "r' \<in> set db'" and "id' r' = i"
  shows "status r' = st \<and> scheduledAt r' = Some t"
proof -
  from assms(1) have "db' = map (\<lambda>r. if id' r = i then r\<lparr>status := st, scheduledAt := Some t\<rparr> else r) db"
    by (simp add: db_update_None)
  with assms(2) obtain r where r: "r \<in> set db"
    and r': "r' = (if id' r = i then r\<lparr>status := st, scheduledAt := Some t\<rparr> else r)"
    by (force simp only: set_map image_iff)
  show ?thesis
  proof (cases "id' r = i")
    case True
    with r' show ?thesis by simp
  next
    case False
    with r' assms(3) show ?thesis by simp
  qed
qed

lemma db_update_mem:
  assumes "db_update None st t (Some i) db = Inr db'" and "r \<in> set db"
  shows "(if id' r = i then r\<lparr>status := st, scheduledAt := Some t\<rparr> else r) \<in> set db'"
proof -
  from assms(1) have "db' = map (\<lambda>r. if id' r = i then r\<lparr>status := st, scheduledAt := Some t\<rparr> else r) db"
    by (simp add: db_update_None)
  with assms(2) show ?thesis by (simp only: set_map image_eqI)
qed

lemma db_update_total: "\<exists>db1. db_update None st t (Some i) db = Inr db1"
  by (simp add: db_update_None)

subsection \<open>Publish-now\<close>

text \<open>
  C3. The publish step of \<^verbatim>\<open>POST /api/publish_media\<close> is simulated: the only thing
  in it that can fail is the \<^verbatim>\<open>UPDATE\<close>. For a request that carries a
  \<open>creation_id\<close>: when that statement is rejected, the handler answers with the error
  (status 500, the driver's message) and the table is exactly what it was; when it is
  executed, the handler answers with the post id and the time it read, the table holds
  the same ids, and every row with the requested id has status \<open>published\<close> and that
  time as \<open>scheduledAt\<close>.
\<close>

theorem publish_media_failure_leaves_store:
  assumes "truthy (field b ''creation_id'')"
  shows "publish_media rnd now (Some m) b db = (Inl (ServerError m), db)
     \<and> (\<exists>db'. publish_media rnd now None b db
                 = (Inr (PostResult (''post_'' @ makeId rnd) now), db')
          \<and> map id' db' = map id' db
          \<and> (\<forall>r' \<in> set db'. Some (id' r') = bind_param (field b ''creation_id'')
                \<longrightarrow> status r' = ''published'' \<and> scheduledAt r' = Some now))"
proof -
  from truthy_bound [OF assms] obtain i where bi: "bind_param (field b ''creation_id'') = Some i"
    by blast
  obtain db' where u: "db_update None ''published'' now (Some i) db = Inr db'"
    using db_update_total by blast
  have "publish_media rnd now (Some m) b db = (Inl (ServerError m), db)"
    using assms by (simp add: publish_media_def db_update_Some Let_def)
  moreover have "publish_media rnd now None b db
                 = (Inr (PostResult (''post_'' @ makeId rnd) now), db')"
    using assms u by (simp add: publish_media_def Let_def bi)
  moreover have "\<forall>r' \<in> set db'. Some (id' r') = bind_param (field b ''creation_id'')
                \<longrightarrow> status r' = ''published'' \<and> scheduledAt r' = Some now"
    using db_update_hit [OF u] by (simp add: bi)
  ultimately show ?thesis
    using db_update_ids [OF u] by blast
qed

theorem publish_media_failure_leaves_store_witness:
  "truthy (field [''creation_id'' \<mapsto> JString ''a1b2c3d4''] ''creation_id'')
   \<and> publish_media ''0.k3j5h7g9f2'' ''2024-01-01T00:01:00.000Z'' (Some ''SQLITE_BUSY: database is locked'')
        [''creation_id'' \<mapsto> JString ''a1b2c3d4''] [job_a]
      = (Inl (ServerError ''SQLITE_BUSY: database is locked''), [job_a])
   \<and> publish_media ''0.k3j5h7g9f2'' ''2024-01-01T00:01:00.000Z'' None
        [''creation_id'' \<mapsto> JString ''a1b2c3d4''] [job_a]
      = (Inr (PostResult ''post_k3j5h7g9'' ''2024-01-01T00:01:00.000Z''),
         [job_a\<lparr>status := ''published'', scheduledAt := Some ''2024-01-01T00:01:00.000Z''\<rparr>])"
proof -
  have h: "truthy (field [''creation_id'' \<mapsto> JString ''a1b2c3d4''] ''creation_id'')"
    by (simp add: field_def)
  have ok: "publish_media ''0.k3j5h7g9f2'' ''2024-01-01T00:01:00.000Z'' None
        [''creation_id'' \<mapsto> JString ''a1b2c3d4''] [job_a]
      = (Inr (PostResult ''post_k3j5h7g9'' ''2024-01-01T00:01:00.000Z''),
         [job_a\<lparr>status := ''published'', scheduledAt := Some ''2024-01-01T00:01:00.000Z''\<rparr>])"
    by (simp add: publish_media_def field_def db_update_def makeId_def job_a_def)
  show ?thesis
    using publish_media_failure_leaves_store [OF h, of "''0.k3j5h7g9f2''"
        "''2024-01-01T00:01:00.000Z''" "''SQLITE_BUSY: database is locked''" "[job_a]"] h ok
    by simp
qed

text \<open>
  C8. Publish-now on an id that no stored row has: the handler answers with a post id
  made from a fresh \<open>makeId\<close> and with the time it read, and the table is unchanged.
\<close>

theorem publish_media_absent_id:
  assumes "truthy (field b ''creation_id'')"
    and "bind_param (field b ''creation_id'') \<notin> set (map (\<lambda>r. Some (id' r)) db)"
  shows "publish_media rnd now None b db = (Inr (PostResult (''post_'' @ makeId rnd) now), db)"
proof -
  from truthy_bound [OF assms(1)] obtain i where bi: "bind_param (field b ''creation_id'') = Some i"
    by blast
  with assms(2) have na: "i \<notin> set (map id' db)" by auto
  have "db_update None ''published'' now (Some i) db = Inr db"
    by (simp only: db_update_None update_absent [OF na])
  with assms(1) show ?thesis by (simp add: publish_media_def Let_def bi)
qed

theorem publish_media_absent_id_witness:
  "truthy (field [''creation_id'' \<mapsto> JString ''zzzzzzzz''] ''creation_id'')
   \<and> bind_param (field [''creation_id'' \<mapsto> JString ''zzzzzzzz''] ''creation_id'')
       \<notin> set (map (\<lambda>r. Some (id' r)) [job_a])
   \<and> publish_media ''0.k3j5h7g9f2'' ''2024-01-01T00:01:00.000Z'' None
        [''creation_id'' \<mapsto> JString ''zzzzzzzz''] [job_a]
      = (Inr (PostResult ''post_k3j5h7g9'' ''2024-01-01T00:01:00.000Z''), [job_a])"
proof -
  have h1: "truthy (field [''creation_id'' \<mapsto> JString ''zzzzzzzz''] ''creation_id'')"
    by (simp add: field_def)
  have h2: "bind_param (field [''creation_id'' \<mapsto> JString ''zzzzzzzz''] ''creation_id'')
       \<notin> set (map (\<lambda>r. Some (id' r)) [job_a])"
    by (simp add: field_def job_a_def)
  have mk: "makeId ''0.k3j5h7g9f2'' = ''k3j5h7g9''" by (simp add: makeId_def)
  show ?thesis
    using publish_media_absent_id [OF h1 h2, of "''0.k3j5h7g9f2''" "''2024-01-01T00:01:00.000Z''"] h1 h2
    by (simp add: mk)
qed

text \<open>
  C9. Publish-now on the id of a stored row \<open>r\<close>, whatever the status of \<open>r\<close>: the
  row is replaced by \<open>r\<close> with status \<open>published\<close> and \<open>scheduledAt\<close> set to the time
  the handler read, and every row with that id in the new table has these two values.
  Nothing is assumed about the status of \<open>r\<close>, so an already published row has its
  recorded publish time overwritten.
\<close>

theorem publish_media_overwrites:
  assumes "truthy (field b ''creation_id'')"
    and "r \<in> set db" and "Some (id' r) = bind_param (field b ''creation_id'')"
  shows "\<exists>db'. publish_media rnd now None b db
                 = (Inr (PostResult (''post_'' @ makeId rnd) now), db')
       \<and> r\<lparr>status := ''published'', scheduledAt := Some now\<rparr> \<in> set db'
       \<and> (\<forall>r' \<in> set db'. id' r' = id' r
             \<longrightarrow> status r' = ''published'' \<and> scheduledAt r' = Some now)"
proof -
  from assms(3) have bi: "bind_param (field b ''creation_id'') = Some (id' r)" by simp
  obtain db' where u: "db_update None ''published'' now (Some (id' r)) db = Inr db'"
    using db_update_total by blast
  have "publish_media rnd now None b db
                 = (Inr (PostResult (''post_'' @ makeId rnd) now), db')"
    using assms(1) u by (simp add: publish_media_def Let_def bi)
  moreover have "r\<lparr>status := ''published'', scheduledAt := Some now\<rparr> \<in> set db'"
    using db_update_mem [OF u assms(2)] by simp
  ultimately show ?thesis
    using db_update_hit [OF u] by blast
qed

theorem publish_media_overwrites_witness:
  "truthy (field [''creation_id'' \<mapsto> JString ''p9q8r7s6''] ''creation_id'')
   \<and> job_p \<in> set [job_a, job_p]
   \<and> Some (id' job_p) = bind_param (field [''creation_id'' \<mapsto> JString ''p9q8r7s6''] ''creation_id'')
   \<and> status job_p = ''published''
   \<and> scheduledAt job_p = Some ''2024-01-01T00:01:00.000Z''
   \<and> (\<exists>db'. publish_media ''0.k3j5h7g9f2'' ''2024-01-01T00:05:00.000Z'' None
               [''creation_id'' \<mapsto> JString ''p9q8r7s6''] [job_a, job_p]
             = (Inr (PostResult ''post_k3j5h7g9'' ''2024-01-01T00:05:00.000Z''), db')
          \<and> job_p\<lparr>status := ''published'', scheduledAt := Some ''2024-01-01T00:05:00.000Z''\<rparr>
              \<in> set db')"
proof -
  have h1: "truthy (field [''creation_id'' \<mapsto> JString ''p9q8r7s6''] ''creation_id'')"
    by (simp add: field_def)
  have h2: "job_p \<in> set [job_a, job_p]" by simp
  have h3: "Some (id' job_p) = bind_param (field [''creation_id'' \<mapsto> JString ''p9q8r7s6''] ''creation_id'')"
    by (simp add: field_def job_p_def)
  have mk: "makeId ''0.k3j5h7g9f2'' = ''k3j5h7g9''" by (simp add: makeId_def)
  have old: "status job_p = ''published'' \<and> scheduledAt job_p = Some ''2024-01-01T00:01:00.000Z''"
    by (simp add: job_p_def)
  from publish_media_overwrites [OF h1 h2 h3, of "''0.k3j5h7g9f2''" "''2024-01-01T00:05:00.000Z''"]
  obtain db' where
    "publish_media ''0.k3j5h7g9f2'' ''2024-01-01T00:05:00.000Z'' None
       [''creation_id'' \<mapsto> JString ''p9q8r7s6''] [job_a, job_p]
     = (Inr (PostResult (''post_'' @ makeId ''0.k3j5h7g9f2'') ''2024-01-01T00:05:00.000Z''), db')"
    and "job_p\<lparr>status := ''published'', scheduledAt := Some ''2024-01-01T00:05:00.000Z''\<rparr> \<in> set db'"
    by blast
  then show ?thesis using h1 h2 h3 old mk by auto
qed

subsection \<open>Create and schedule\<close>




text \<open>
  C4 as stated fails for publish-now and delete. Neither handler reads an image URL:
  a publish-now request that carries only a \<open>creation_id\<close> is answered with success
  and changes the stored row, and a delete removes the row.
\<close>

theorem imageUrl_not_required_counterexample:
  "field [''creation_id'' \<mapsto> JString ''a1b2c3d4''] ''imageUrl'' = JUndefined
   \<and> publish_media ''0.k3j5h7g9f2'' ''2024-01-01T00:01:00.000Z'' None
        [''creation_id'' \<mapsto> JString ''a1b2c3d4''] [job_a]
      = (Inr (PostResult ''post_k3j5h7g9'' ''2024-01-01T00:01:00.000Z''),
         [job_a\<lparr>status := ''published'', scheduledAt := Some ''2024-01-01T00:01:00.000Z''\<rparr>])
   \<and> [job_a\<lparr>status := ''published'', scheduledAt := Some ''2024-01-01T00:01:00.000Z''\<rparr>] \<noteq> [job_a]
   \<and> delete_queue None ''a1b2c3d4'' [job_a] = (Inr OkTrue, [])"
  by (simp add: field_def publish_media_def db_update_def makeId_def job_a_def
        delete_queue_def db_delete_def)

text \<open>
  C4, as the code has it. Create and schedule reject a request whose image URL is
  absent, \<^verbatim>\<open>null\<close> or empty with status 400 and leave the table as it was, whatever
  else the request holds and whether or not the store is available.
\<close>

theorem missing_imageUrl_rejected:
  assumes "field b ''imageUrl'' = JUndefined \<or> field b ''imageUrl'' = JNull
           \<or> field b ''imageUrl'' = JString []"
  shows "create_media rnd now fault b db = (Inl (BadRequest ''Missing imageUrl''), db)
       \<and> schedule rnd plus1h now fault b db = (Inl (BadRequest ''Missing imageUrl''), db)"
proof -
  from assms have "\<not> truthy (field b ''imageUrl'')" by auto
  then show ?thesis by (simp add: create_media_def schedule_def Let_def)
qed

theorem missing_imageUrl_rejected_witness:
  "field [''imageUrl'' \<mapsto> JString [], ''caption'' \<mapsto> JString ''hello''] ''imageUrl'' = JString []
   \<and> create_media ''0.a1b2c3d4e5f'' ''2024-01-01T00:00:00.000Z'' None
        [''imageUrl'' \<mapsto> JString [], ''caption'' \<mapsto> JString ''hello''] [job_p]
      = (Inl (BadRequest ''Missing imageUrl''), [job_p])
   \<and> schedule ''0.a1b2c3d4e5f'' ''2024-01-01T01:00:00.000Z'' ''2024-01-01T00:00:00.000Z'' None
        [''imageUrl'' \<mapsto> JString [], ''caption'' \<mapsto> JString ''hello''] [job_p]
      = (Inl (BadRequest ''Missing imageUrl''), [job_p])"
proof -
  let ?b = "[''imageUrl'' \<mapsto> JString [], ''caption'' \<mapsto> JString ''hello'']"
  have e: "field ?b ''imageUrl'' = JString []" by (simp add: field_def)
  then have h: "field ?b ''imageUrl'' = JUndefined \<or> field ?b ''imageUrl'' = JNull
           \<or> field ?b ''imageUrl'' = JString []" by simp
  show ?thesis
    using missing_imageUrl_rejected [OF h, of "''0.a1b2c3d4e5f''" "''2024-01-01T00:00:00.000Z''"
        None "[job_p]" "''2024-01-01T01:00:00.000Z''"] e
    by simp
qed

subsection \<open>Delete\<close>

text \<open>
  C7. With the store available, delete answers \<^verbatim>\<open>{ ok: true }\<close> for every id and every
  table, whether or not a row has that id and whatever its status. Afterwards the
  queue listing holds exactly the rows of the old table with another id, and a second
  delete of the same id answers the same and changes nothing.
\<close>

theorem delete_queue_idempotent:
  "\<exists>db' rows. delete_queue None i db = (Inr OkTrue, db')
     \<and> get_queue None db' = (Inr (Rows rows), db')
     \<and> i \<notin> set (map id' rows)
     \<and> set rows = {r \<in> set db. id' r \<noteq> i}
     \<and> delete_queue None i db' = (Inr OkTrue, db')"
  by (auto simp: delete_queue_def db_delete_def get_queue_def db_select_all_def)

subsection \<open>Auxiliary facts about the loop and the primary key\<close>

text \<open>
  The facts about \<open>tick_loop\<close> are for any rows \<open>due\<close> and any table \<open>db\<close>: they
  hold whatever other handlers did to the table between the tick's \<^verbatim>\<open>SELECT\<close> and
  its loop. The facts about \<open>db_insert\<close> and \<open>pk_ok\<close> say how each handler treats
  the ids of the stored rows.
\<close>

lemma db_update_keep:
  assumes "db_update None st t (Some i) db = Inr db'" and "r \<in> set db" and "id' r \<noteq> i"
  shows "r \<in> set db'"
  using db_update_mem [OF assms(1,2)] assms(3) by simp

lemma tick_loop_step_ok:
  assumes "flt k = None" and "db_update None ''published'' (clk k) (Some (id' r)) db = Inr db1"
  shows "tick_loop clk flt k (r # due) db
         = (Publishing (id' r) # fst (tick_loop clk flt (Suc k) due db1),
            snd (tick_loop clk flt (Suc k) due db1))"
  using assms by (simp add: split_beta)

lemma tick_loop_step_fail:
  assumes "flt k = Some m"
  shows "tick_loop clk flt k (r # due) db = ([Publishing (id' r), SchedulerError m], db)"
  using assms by (simp add: db_update_Some)

lemma tick_loop_ids: "map id' (snd (tick_loop clk flt k due db)) = map id' db"
proof (induction due arbitrary: k db)
  case Nil
  show ?case by simp
next
  case (Cons r due)
  show ?case
  proof (cases "flt k")
    case None
    obtain db1 where u: "db_update None ''published'' (clk k) (Some (id' r)) db = Inr db1"
      using db_update_total by blast
    have "map id' (snd (tick_loop clk flt (Suc k) due db1)) = map id' db1"
      by (rule Cons.IH)
    also have "\<dots> = map id' db" by (rule db_update_ids [OF u])
    finally show ?thesis by (simp only: tick_loop_step_ok [where flt=flt and k=k and clk=clk, OF None u] snd_conv)
  next
    case (Some m)
    show ?thesis by (simp only: tick_loop_step_fail [where flt=flt and k=k and clk=clk, OF Some] snd_conv)
  qed
qed

lemma tick_loop_log:
  assumes "\<And>j. j < length due \<Longrightarrow> flt (k + j) = None"
  shows "fst (tick_loop clk flt k due db) = map (\<lambda>r. Publishing (id' r)) due"
  using assms
proof (induction due arbitrary: k db)
  case Nil
  show ?case by simp
next
  case (Cons r due)
  have f0: "flt k = None" using Cons.prems [of 0] by simp
  obtain db1 where u: "db_update None ''published'' (clk k) (Some (id' r)) db = Inr db1"
    using db_update_total by blast
  have "\<And>j. j < length due \<Longrightarrow> flt (Suc k + j) = None"
    using Cons.prems [of "Suc j" for j] by simp
  then have "fst (tick_loop clk flt (Suc k) due db1) = map (\<lambda>r. Publishing (id' r)) due"
    by (rule Cons.IH)
  then show ?case by (simp only: tick_loop_step_ok [where flt=flt and k=k and clk=clk, OF f0 u] fst_conv list.map)
qed

lemma tick_loop_keep:
  assumes "r \<in> set db" and "id' r \<notin> set (map id' due)"
  shows "r \<in> set (snd (tick_loop clk flt k due db))"
  using assms
proof (induction due arbitrary: k db)
  case Nil
  then show ?case by simp
next
  case (Cons d due)
  from Cons.prems(2) have ne: "id' r \<noteq> id' d" and rest: "id' r \<notin> set (map id' due)"
    by simp_all
  show ?case
  proof (cases "flt k")
    case None
    obtain db1 where u: "db_update None ''published'' (clk k) (Some (id' d)) db = Inr db1"
      using db_update_total by blast
    have "r \<in> set db1" by (rule db_update_keep [OF u Cons.prems(1) ne])
    then have "r \<in> set (snd (tick_loop clk flt (Suc k) due db1))"
      using rest by (rule Cons.IH)
    then show ?thesis by (simp only: tick_loop_step_ok [where flt=flt and k=k and clk=clk, OF None u] snd_conv)
  next
    case (Some m)
    show ?thesis using Cons.prems(1) by (simp only: tick_loop_step_fail [where flt=flt and k=k and clk=clk, OF Some] snd_conv)
  qed
qed

lemma tick_loop_published:
  assumes "\<And>j. j < length due \<Longrightarrow> flt (k + j) = None"
    and "distinct (map id' due)" and "j < length due"
    and "r \<in> set db" and "id' r = id' (due ! j)"
  shows "r\<lparr>status := ''published'', scheduledAt := Some (clk (k + j))\<rparr>
         \<in> set (snd (tick_loop clk flt k due db))"
  using assms
proof (induction due arbitrary: k db j)
  case Nil
  then show ?case by simp
next
  case (Cons d due)
  have f0: "flt k = None" using Cons.prems(1) [of 0] by simp
  obtain db1 where u: "db_update None ''published'' (clk k) (Some (id' d)) db = Inr db1"
    using db_update_total by blast
  have fs: "\<And>j. j < length due \<Longrightarrow> flt (Suc k + j) = None"
    using Cons.prems(1) [of "Suc j" for j] by simp
  from Cons.prems(2) have dn: "id' d \<notin> set (map id' due)" and dd: "distinct (map id' due)"
    by simp_all
  have step: "snd (tick_loop clk flt k (d # due) db) = snd (tick_loop clk flt (Suc k) due db1)"
    by (simp only: tick_loop_step_ok [where flt=flt and k=k and clk=clk, OF f0 u] snd_conv)
  show ?case
  proof (cases j)
    case 0
    with Cons.prems(5) have e: "id' r = id' d" by simp
    let ?r' = "r\<lparr>status := ''published'', scheduledAt := Some (clk k)\<rparr>"
    have "?r' \<in> set db1"
      using db_update_mem [OF u Cons.prems(4)] e by simp
    moreover have "id' ?r' \<notin> set (map id' due)" using dn e by simp
    ultimately have "?r' \<in> set (snd (tick_loop clk flt (Suc k) due db1))"
      by (rule tick_loop_keep)
    with 0 show ?thesis by (simp only: step add_0_right)
  next
    case (Suc j')
    with Cons.prems(3) have j': "j' < length due" by simp
    from Suc Cons.prems(5) have e: "id' r = id' (due ! j')" by simp
    from j' have "due ! j' \<in> set due" by simp
    then have "id' (due ! j') \<in> set (map id' due)" by simp
    with dn e have ne: "id' r \<noteq> id' d" by auto
    have "r \<in> set db1" by (rule db_update_keep [OF u Cons.prems(4) ne])
    with fs dd j' have "r\<lparr>status := ''published'', scheduledAt := Some (clk (Suc k + j'))\<rparr>
         \<in> set (snd (tick_loop clk flt (Suc k) due db1))"
      using e by (rule Cons.IH)
    with Suc show ?thesis by (simp only: step add_Suc_shift)
  qed
qed

lemma tick_loop_abort:
  assumes "n < length due" and "flt (k + n) = Some m"
    and "\<And>j. j < n \<Longrightarrow> flt (k + j) = None"
  shows "tick_loop clk flt k due db
         = (map (\<lambda>r. Publishing (id' r)) (take (Suc n) due) @ [SchedulerError m],
            snd (tick_loop clk flt k (take n due) db))"
  using assms
proof (induction due arbitrary: k db n)
  case Nil
  then show ?case by simp
next
  case (Cons d due)
  show ?case
  proof (cases n)
    case 0
    with Cons.prems(2) have f: "flt k = Some m" by simp
    have a: "tick_loop clk flt k (d # due) db = ([Publishing (id' d), SchedulerError m], db)"
      by (rule tick_loop_step_fail [where flt=flt and k=k and clk=clk, OF f])
    show ?thesis
      unfolding 0 a by simp
  next
    case (Suc n')
    have f0: "flt k = None" using Cons.prems(3) [of 0] Suc by simp
    obtain db1 where u: "db_update None ''published'' (clk k) (Some (id' d)) db = Inr db1"
      using db_update_total by blast
    from Suc Cons.prems(1) have n': "n' < length due" by simp
    from Suc Cons.prems(2) have fn: "flt (Suc k + n') = Some m" by simp
    have fs: "\<And>j. j < n' \<Longrightarrow> flt (Suc k + j) = None"
      using Cons.prems(3) [of "Suc j" for j] Suc by simp
    from n' fn fs have IH: "tick_loop clk flt (Suc k) due db1
         = (map (\<lambda>r. Publishing (id' r)) (take (Suc n') due) @ [SchedulerError m],
            snd (tick_loop clk flt (Suc k) (take n' due) db1))"
      by (rule Cons.IH)
    have a: "tick_loop clk flt k (d # due) db
         = (Publishing (id' d) # fst (tick_loop clk flt (Suc k) due db1),
            snd (tick_loop clk flt (Suc k) due db1))"
      by (rule tick_loop_step_ok [where flt=flt and k=k and clk=clk, OF f0 u])
    have b: "tick_loop clk flt k (d # take n' due) db
         = (Publishing (id' d) # fst (tick_loop clk flt (Suc k) (take n' due) db1),
            snd (tick_loop clk flt (Suc k) (take n' due) db1))"
      by (rule tick_loop_step_ok [where flt=flt and k=k and clk=clk, OF f0 u])
    show ?thesis
      unfolding Suc take_Suc_Cons a b IH by simp
  qed
qed

lemma db_insert_Inr:
  assumes "db_insert fault r db = Inr db'"
  shows "id' r \<notin> set (map id' db) \<and> db' = db @ [r]"
proof (cases fault)
  case None
  show ?thesis
  proof (cases "id' r \<in> set (map id' db)")
    case True
    with None assms show ?thesis by (simp add: db_insert_def)
  next
    case False
    with None assms show ?thesis by (simp add: db_insert_def)
  qed
next
  case (Some m)
  with assms show ?thesis by (simp add: db_insert_def)
qed

lemma pk_ok_insert:
  assumes "pk_ok db" and "db_insert fault r db = Inr db'"
  shows "pk_ok db'"
proof -
  from db_insert_Inr [OF assms(2)] have "id' r \<notin> set (map id' db)" and "db' = db @ [r]"
    by simp_all
  with assms(1) show ?thesis by (simp add: pk_ok_def)
qed

lemma create_media_cases:
  "(\<exists>e. create_media rnd now fault b db = (Inl e, db))
   \<or> (\<exists>db'. create_media rnd now fault b db = (Inr (CreationId (makeId rnd)), db')
         \<and> makeId rnd \<notin> set (map id' db)
         \<and> db_insert fault
              \<lparr>id' = makeId rnd, imageUrl = bind_param (field b ''imageUrl''),
               caption = bind_param (or_else (field b ''caption'') (JString [])),
               scheduledAt = None, status = ''created'', createdAt = now\<rparr> db = Inr db')"
proof (cases "truthy (field b ''imageUrl'')")
  case False
  then show ?thesis by (simp add: create_media_def Let_def)
next
  case True
  let ?r = "\<lparr>id' = makeId rnd, imageUrl = bind_param (field b ''imageUrl''),
               caption = bind_param (or_else (field b ''caption'') (JString [])),
               scheduledAt = None, status = ''created'', createdAt = now\<rparr>"
  show ?thesis
  proof (cases "db_insert fault ?r db")
    case (Inl m)
    with True have "create_media rnd now fault b db = (Inl (ServerError m), db)"
      by (simp add: create_media_def Let_def)
    then show ?thesis by blast
  next
    case (Inr db')
    with True have "create_media rnd now fault b db = (Inr (CreationId (makeId rnd)), db')"
      by (simp add: create_media_def Let_def)
    moreover from db_insert_Inr [OF Inr] have "makeId rnd \<notin> set (map id' db)" by simp
    ultimately show ?thesis using Inr by blast
  qed
qed

lemma schedule_cases:
  "(\<exists>e. schedule rnd plus1h now fault b db = (Inl e, db))
   \<or> (\<exists>db'. schedule rnd plus1h now fault b db
               = (Inr (JobResult (makeId rnd)
                    (or_else (field b ''scheduleTime'') (JString plus1h))), db')
         \<and> makeId rnd \<notin> set (map id' db)
         \<and> db_insert fault
              \<lparr>id' = makeId rnd, imageUrl = bind_param (field b ''imageUrl''),
               caption = bind_param (or_else (field b ''caption'') (JString [])),
               scheduledAt = bind_param (or_else (field b ''scheduleTime'') (JString plus1h)),
               status = ''scheduled'', createdAt = now\<rparr> db = Inr db')"
proof (cases "truthy (field b ''imageUrl'')")
  case False
  then show ?thesis by (simp add: schedule_def Let_def)
next
  case True
  let ?r = "\<lparr>id' = makeId rnd, imageUrl = bind_param (field b ''imageUrl''),
               caption = bind_param (or_else (field b ''caption'') (JString [])),
               scheduledAt = bind_param (or_else (field b ''scheduleTime'') (JString plus1h)),
               status = ''scheduled'', createdAt = now\<rparr>"
  show ?thesis
  proof (cases "db_insert fault ?r db")
    case (Inl m)
    with True have "schedule rnd plus1h now fault b db = (Inl (ServerError m), db)"
      by (simp add: schedule_def Let_def)
    then show ?thesis by blast
  next
    case (Inr db')
    with True have "schedule rnd plus1h now fault b db
               = (Inr (JobResult (makeId rnd)
                    (or_else (field b ''scheduleTime'') (JString plus1h))), db')"
      by (simp add: schedule_def Let_def)
    moreover from db_insert_Inr [OF Inr] have "makeId rnd \<notin> set (map id' db)" by simp
    ultimately show ?thesis using Inr by blast
  qed
qed

lemma publish_media_ids: "map id' (snd (publish_media rnd now fault b db)) = map id' db"
proof (cases "truthy (field b ''creation_id'')")
  case False
  then show ?thesis by (simp add: publish_media_def Let_def)
next
  case True
  show ?thesis
  proof (cases "db_update fault ''published'' now (bind_param (field b ''creation_id'')) db")
    case (Inl m)
    with True show ?thesis by (simp add: publish_media_def Let_def)
  next
    case (Inr db')
    with True have "snd (publish_media rnd now fault b db) = db'"
      by (simp add: publish_media_def Let_def)
    with db_update_ids [OF Inr] show ?thesis by simp
  qed
qed

lemma pk_ok_delete: "pk_ok db \<Longrightarrow> pk_ok (snd (delete_queue fault i db))"
  by (cases fault) (simp_all add: delete_queue_def db_delete_def pk_ok_def distinct_map_filter)

lemma tick_ids: "map id' (snd (tick now fault clk flt db)) = map id' db"
  by (cases fault) (simp_all add: tick_def db_select_due_def tick_loop_ids)

lemma tick_loop_absent:
  assumes "set (map id' due) \<inter> set (map id' db) = {}"
  shows "snd (tick_loop clk flt k due db) = db"
  using assms
proof (induction due arbitrary: k)
  case Nil
  show ?case by simp
next
  case (Cons d due)
  from Cons.prems have dn: "id' d \<notin> set (map id' db)"
    and rest: "set (map id' due) \<inter> set (map id' db) = {}" by auto
  show ?case
  proof (cases "flt k")
    case None
    have u: "db_update None ''published'' (clk k) (Some (id' d)) db = Inr db"
      by (simp only: db_update_None update_absent [OF dn])
    have "snd (tick_loop clk flt (Suc k) due db) = db" using rest by (rule Cons.IH)
    then show ?thesis
      by (simp only: tick_loop_step_ok [where flt=flt and k=k and clk=clk, OF None u] snd_conv)
  next
    case (Some m)
    show ?thesis by (simp only: tick_loop_step_fail [where flt=flt and k=k and clk=clk, OF Some] snd_conv)
  qed
qed


lemma db_update_nth:
  assumes "db_update None st t (Some i) db = Inr db'" and "n < length db"
  shows "db' ! n = (if id' (db ! n) = i then (db ! n)\<lparr>status := st, scheduledAt := Some t\<rparr>
                    else db ! n)"
proof -
  from assms(1) have "db' = map (\<lambda>r. if id' r = i then r\<lparr>status := st, scheduledAt := Some t\<rparr> else r) db"
    by (simp add: db_update_None)
  with assms(2) show ?thesis by simp
qed

lemma db_update_length:
  assumes "db_update fault st t i db = Inr db'"
  shows "length db' = length db"
  using db_update_ids [OF assms] by (rule map_eq_imp_length_eq)

lemma tick_loop_length: "length (snd (tick_loop clk flt k due db)) = length db"
  using tick_loop_ids [of clk flt k due db] by (rule map_eq_imp_length_eq)

lemma tick_loop_nth_keep:
  assumes "n < length db" and "id' (db ! n) \<notin> set (map id' due)"
  shows "snd (tick_loop clk flt k due db) ! n = db ! n"
  using assms
proof (induction due arbitrary: k db)
  case Nil
  show ?case by simp
next
  case (Cons d due)
  from Cons.prems(2) have ne: "id' (db ! n) \<noteq> id' d"
    and rest: "id' (db ! n) \<notin> set (map id' due)"
    by simp_all
  show ?case
  proof (cases "flt k")
    case None
    obtain db1 where u: "db_update None ''published'' (clk k) (Some (id' d)) db = Inr db1"
      using db_update_total by blast
    have same: "db1 ! n = db ! n"
      using db_update_nth [OF u Cons.prems(1)] ne by simp
    have len: "n < length db1"
      using db_update_length [OF u] Cons.prems(1) by simp
    from rest have rest1: "id' (db1 ! n) \<notin> set (map id' due)" using same by simp
    from len rest1 have "snd (tick_loop clk flt (Suc k) due db1) ! n = db1 ! n"
      by (rule Cons.IH)
    then show ?thesis
      by (simp only: tick_loop_step_ok [where flt=flt and k=k and clk=clk, OF None u]
            snd_conv same)
  next
    case (Some m)
    show ?thesis
      by (simp only: tick_loop_step_fail [where flt=flt and k=k and clk=clk, OF Some] snd_conv)
  qed
qed

lemma tick_loop_nth_published:
  assumes "\<And>j. j < length due \<Longrightarrow> flt (k + j) = None"
    and "distinct (map id' due)" and "j < length due"
    and "n < length db" and "id' (db ! n) = id' (due ! j)"
  shows "snd (tick_loop clk flt k due db) ! n
         = (db ! n)\<lparr>status := ''published'', scheduledAt := Some (clk (k + j))\<rparr>"
  using assms
proof (induction due arbitrary: k db j)
  case Nil
  then show ?case by simp
next
  case (Cons d due)
  have f0: "flt k = None" using Cons.prems(1) [of 0] by simp
  obtain db1 where u: "db_update None ''published'' (clk k) (Some (id' d)) db = Inr db1"
    using db_update_total by blast
  have fs: "\<And>j. j < length due \<Longrightarrow> flt (Suc k + j) = None"
    using Cons.prems(1) [of "Suc j" for j] by simp
  from Cons.prems(2) have dn: "id' d \<notin> set (map id' due)" and dd: "distinct (map id' due)"
    by simp_all
  have step: "snd (tick_loop clk flt k (d # due) db) = snd (tick_loop clk flt (Suc k) due db1)"
    by (simp only: tick_loop_step_ok [where flt=flt and k=k and clk=clk, OF f0 u] snd_conv)
  have len: "n < length db1"
    using db_update_length [OF u] Cons.prems(4) by simp
  show ?case
  proof (cases j)
    case 0
    with Cons.prems(5) have e: "id' (db ! n) = id' d" by simp
    have x: "db1 ! n = (db ! n)\<lparr>status := ''published'', scheduledAt := Some (clk k)\<rparr>"
      using db_update_nth [OF u Cons.prems(4)] e by simp
    then have "id' (db1 ! n) = id' d" using e by simp
    with dn have "id' (db1 ! n) \<notin> set (map id' due)" by simp
    with len have "snd (tick_loop clk flt (Suc k) due db1) ! n = db1 ! n"
      by (rule tick_loop_nth_keep)
    with 0 show ?thesis by (simp only: step x add_0_right)
  next
    case (Suc j')
    with Cons.prems(3) have j': "j' < length due" by simp
    from Suc Cons.prems(5) have e: "id' (db ! n) = id' (due ! j')" by simp
    from j' have "due ! j' \<in> set due" by simp
    then have "id' (due ! j') \<in> set (map id' due)" by simp
    with dn e have ne: "id' (db ! n) \<noteq> id' d" by auto
    have same: "db1 ! n = db ! n"
      using db_update_nth [OF u Cons.prems(4)] ne by simp
    from e have e1: "id' (db1 ! n) = id' (due ! j')" using same by simp
    from fs dd j' len e1
    have "snd (tick_loop clk flt (Suc k) due db1) ! n
         = (db1 ! n)\<lparr>status := ''published'', scheduledAt := Some (clk (Suc k + j'))\<rparr>"
      by (rule Cons.IH)
    with Suc show ?thesis by (simp only: step same add_Suc_shift)
  qed
qed

subsection \<open>The scheduler tick\<close>




text \<open>
  C1 as stated fails: the tick's \<^verbatim>\<open>UPDATE\<close> has no condition on the status. A tick
  selects the scheduled row \<open>job_a\<close>; before its loop runs, publish-now publishes the
  row at \<open>00:03:00.100\<close>; the loop then updates the already published row again and
  overwrites its publish time with \<open>00:03:00.200\<close>.
\<close>

theorem tick_update_unconditional_counterexample:
  "db_select_due None ''scheduled'' ''2024-01-01T00:03:00.000Z'' [job_a] = Inr [job_a]
   \<and> publish_media ''0.k3j5h7g9f2'' ''2024-01-01T00:03:00.100Z'' None
        [''creation_id'' \<mapsto> JString ''a1b2c3d4''] [job_a]
      = (Inr (PostResult ''post_k3j5h7g9'' ''2024-01-01T00:03:00.100Z''),
         [job_a\<lparr>status := ''published'', scheduledAt := Some ''2024-01-01T00:03:00.100Z''\<rparr>])
   \<and> status (job_a\<lparr>status := ''published'', scheduledAt := Some ''2024-01-01T00:03:00.100Z''\<rparr>)
       \<noteq> ''scheduled''
   \<and> tick_loop (clock2 ''2024-01-01T00:03:00.200Z'' ''2024-01-01T00:03:00.300Z'') no_faults 0
        [job_a]
        [job_a\<lparr>status := ''published'', scheduledAt := Some ''2024-01-01T00:03:00.100Z''\<rparr>]
      = ([Publishing ''a1b2c3d4''],
         [job_a\<lparr>status := ''published'', scheduledAt := Some ''2024-01-01T00:03:00.200Z''\<rparr>])
   \<and> job_a\<lparr>status := ''published'', scheduledAt := Some ''2024-01-01T00:03:00.200Z''\<rparr>
       \<noteq> job_a\<lparr>status := ''published'', scheduledAt := Some ''2024-01-01T00:03:00.100Z''\<rparr>"
  by (simp add: db_select_due_def is_due_def job_a_def publish_media_def field_def
        db_update_def makeId_def clock2_def no_faults_def)

text \<open>
  C1, as the code has it. With the store available, the loop's updates are selected by
  id alone. Let \<open>due\<close> be the selected rows (with distinct ids, as every \<^verbatim>\<open>SELECT\<close>
  on a table that respects the primary key returns them) and \<open>db\<close> the table at the
  time of the loop. The log is one \<open>Publishing\<close> line per selected row and no
  \<open>SchedulerError\<close>. The table keeps its length. A stored row whose id is the id of
  the \<open>j\<close>-th selected row is replaced, in place, by that row with status
  \<open>published\<close> and \<open>scheduledAt\<close> set to \<open>clk (k + j)\<close>, the time read in the
  iteration of the \<open>j\<close>-th selected row, whatever the status of the stored row was.
  A stored row of any other id stays as it is. When no selected id is stored any
  more (each update matches zero rows) the table is unchanged.
\<close>

theorem tick_loop_updates_by_id:
  assumes "\<forall>j. flt j = None" and "distinct (map id' due)"
  shows "fst (tick_loop clk flt k due db) = map (\<lambda>r. Publishing (id' r)) due
       \<and> length (snd (tick_loop clk flt k due db)) = length db
       \<and> (\<forall>n<length db. \<forall>j<length due.
             id' (db ! n) = id' (due ! j)
             \<longrightarrow> snd (tick_loop clk flt k due db) ! n
                 = (db ! n)\<lparr>status := ''published'', scheduledAt := Some (clk (k + j))\<rparr>)
       \<and> (\<forall>n<length db.
             id' (db ! n) \<notin> set (map id' due)
             \<longrightarrow> snd (tick_loop clk flt k due db) ! n = db ! n)
       \<and> (set (map id' due) \<inter> set (map id' db) = {}
            \<longrightarrow> snd (tick_loop clk flt k due db) = db)"
proof -
  have nf: "\<And>j. j < length due \<Longrightarrow> flt (k + j) = None" using assms(1) by simp
  have a: "fst (tick_loop clk flt k due db) = map (\<lambda>r. Publishing (id' r)) due"
    using nf by (rule tick_loop_log)
  have b: "length (snd (tick_loop clk flt k due db)) = length db"
    by (rule tick_loop_length)
  have c: "\<forall>n<length db. \<forall>j<length due.
             id' (db ! n) = id' (due ! j)
             \<longrightarrow> snd (tick_loop clk flt k due db) ! n
                 = (db ! n)\<lparr>status := ''published'', scheduledAt := Some (clk (k + j))\<rparr>"
  proof (intro allI impI)
    fix n j assume n: "n < length db" and j: "j < length due"
      and e: "id' (db ! n) = id' (due ! j)"
    from nf assms(2) j n e
    show "snd (tick_loop clk flt k due db) ! n
          = (db ! n)\<lparr>status := ''published'', scheduledAt := Some (clk (k + j))\<rparr>"
      by (rule tick_loop_nth_published)
  qed
  have d: "\<forall>n<length db.
             id' (db ! n) \<notin> set (map id' due)
             \<longrightarrow> snd (tick_loop clk flt k due db) ! n = db ! n"
  proof (intro allI impI)
    fix n assume n: "n < length db" and e: "id' (db ! n) \<notin> set (map id' due)"
    from n e show "snd (tick_loop clk flt k due db) ! n = db ! n"
      by (rule tick_loop_nth_keep)
  qed
  have e: "set (map id' due) \<inter> set (map id' db) = {}
            \<longrightarrow> snd (tick_loop clk flt k due db) = db"
    using tick_loop_absent [where flt=flt and k=k and clk=clk and due=due and db=db]
    by blast
  from a b c d e show ?thesis by (intro conjI)
qed

text \<open>
  The run of the counterexample continued: the tick selected \<open>job_a\<close> and \<open>job_b\<close>;
  before its loop, \<open>job_a\<close> was published by hand at \<open>00:03:00.100\<close> and \<open>job_b\<close>
  was deleted. The loop overwrites the published row with the time of its first
  iteration, finds no row for \<open>job_b\<close>, logs no error and leaves \<open>job_p\<close> alone.
\<close>

theorem tick_loop_updates_by_id_witness:
  "(\<forall>j. no_faults j = None)
   \<and> distinct (map id' [job_a, job_b])
   \<and> status (job_a\<lparr>status := ''published'', scheduledAt := Some ''2024-01-01T00:03:00.100Z''\<rparr>)
       = ''published''
   \<and> fst (tick_loop (clock2 ''2024-01-01T00:03:00.200Z'' ''2024-01-01T00:03:00.300Z'')
            no_faults 0 [job_a, job_b]
            [job_a\<lparr>status := ''published'', scheduledAt := Some ''2024-01-01T00:03:00.100Z''\<rparr>,
             job_p])
      = [Publishing ''a1b2c3d4'', Publishing ''b5c6d7e8'']
   \<and> length (snd (tick_loop (clock2 ''2024-01-01T00:03:00.200Z'' ''2024-01-01T00:03:00.300Z'')
            no_faults 0 [job_a, job_b]
            [job_a\<lparr>status := ''published'', scheduledAt := Some ''2024-01-01T00:03:00.100Z''\<rparr>,
             job_p]))
      = 2
   \<and> snd (tick_loop (clock2 ''2024-01-01T00:03:00.200Z'' ''2024-01-01T00:03:00.300Z'')
            no_faults 0 [job_a, job_b]
            [job_a\<lparr>status := ''published'', scheduledAt := Some ''2024-01-01T00:03:00.100Z''\<rparr>,
             job_p]) ! 0
      = job_a\<lparr>status := ''published'', scheduledAt := Some ''2024-01-01T00:03:00.200Z''\<rparr>
   \<and> snd (tick_loop (clock2 ''2024-01-01T00:03:00.200Z'' ''2024-01-01T00:03:00.300Z'')
            no_faults 0 [job_a, job_b]
            [job_a\<lparr>status := ''published'', scheduledAt := Some ''2024-01-01T00:03:00.100Z''\<rparr>,
             job_p]) ! 1
      = job_p"
proof -
  let ?clk = "clock2 ''2024-01-01T00:03:00.200Z'' ''2024-01-01T00:03:00.300Z''"
  let ?a' = "job_a\<lparr>status := ''published'', scheduledAt := Some ''2024-01-01T00:03:00.100Z''\<rparr>"
  let ?due = "[job_a, job_b]"
  let ?db = "[?a', job_p]"
  let ?db' = "snd (tick_loop ?clk no_faults 0 ?due ?db)"
  have h1: "\<forall>j. no_faults j = None" by (simp add: no_faults_def)
  have h2: "distinct (map id' ?due)" by (simp add: job_a_def job_b_def)
  have st: "status ?a' = ''published''" by simp
  note T = tick_loop_updates_by_id [OF h1 h2, of ?clk 0 ?db]
  from T have "fst (tick_loop ?clk no_faults 0 ?due ?db) = map (\<lambda>r. Publishing (id' r)) ?due"
    by (rule conjunct1)
  then have a: "fst (tick_loop ?clk no_faults 0 ?due ?db)
      = [Publishing ''a1b2c3d4'', Publishing ''b5c6d7e8'']"
    by (simp add: job_a_def job_b_def)
  from T have "length ?db' = length ?db" by blast
  then have b: "length ?db' = 2" by simp
  from T have c: "\<forall>n<length ?db. \<forall>j<length ?due.
             id' (?db ! n) = id' (?due ! j)
             \<longrightarrow> ?db' ! n = (?db ! n)\<lparr>status := ''published'', scheduledAt := Some (?clk (0 + j))\<rparr>"
    by blast
  have "?db' ! 0 = (?db ! 0)\<lparr>status := ''published'', scheduledAt := Some (?clk (0 + 0))\<rparr>"
    using c [rule_format, of 0 0] by simp
  then have c0: "?db' ! 0
      = job_a\<lparr>status := ''published'', scheduledAt := Some ''2024-01-01T00:03:00.200Z''\<rparr>"
    by (simp add: clock2_def)
  from T have d: "\<forall>n<length ?db. id' (?db ! n) \<notin> set (map id' ?due) \<longrightarrow> ?db' ! n = ?db ! n"
    by blast
  have "?db' ! 1 = ?db ! 1"
    using d [rule_format, of 1] by (simp add: job_a_def job_b_def job_p_def)
  then have d1: "?db' ! 1 = job_p" by simp
  from h1 h2 st a b c0 d1 show ?thesis by (intro conjI)
qed

text \<open>
  C2 as stated fails: the loop has one \<^verbatim>\<open>try\<close> around all of it. With two due rows
  and the first row's \<^verbatim>\<open>UPDATE\<close> rejected, the tick logs the error and stops; the
  second row is never started on.
\<close>

theorem tick_failure_aborts_counterexample:
  "db_select_due None ''scheduled'' ''2024-01-01T00:03:00.000Z'' [job_a, job_b]
     = Inr [job_a, job_b]
   \<and> tick ''2024-01-01T00:03:00.000Z'' None
        (clock2 ''2024-01-01T00:03:00.050Z'' ''2024-01-01T00:03:00.060Z'')
        (fault_at 0 ''SQLITE_BUSY: database is locked'') [job_a, job_b]
      = ([Publishing ''a1b2c3d4'', SchedulerError ''SQLITE_BUSY: database is locked''],
         [job_a, job_b])
   \<and> Publishing (id' job_b)
       \<notin> set [Publishing ''a1b2c3d4'', SchedulerError ''SQLITE_BUSY: database is locked'']"
  by (simp add: tick_def db_select_due_def is_due_def job_a_def job_b_def db_update_def
        fault_at_def clock2_def)

text \<open>
  C2, as the code has it. On a table that respects the primary key, let the \<open>n\<close>-th
  selected row be the first whose \<^verbatim>\<open>UPDATE\<close> is rejected, with message \<open>m\<close>. The
  tick logs a \<open>Publishing\<close> line for the rows up to and including the \<open>n\<close>-th and
  then the error, and ends there: the \<open>n\<close>-th row and all rows selected after it are
  in the table unchanged (still \<open>scheduled\<close>, for the next tick), and the rows before
  it are published.
\<close>

theorem tick_failure_aborts_rest:
  assumes "pk_ok db" and "db_select_due None ''scheduled'' now db = Inr due"
    and "n < length due" and "flt n = Some m" and "\<forall>j<n. flt j = None"
  shows "fst (tick now None clk flt db)
           = map (\<lambda>r. Publishing (id' r)) (take (Suc n) due) @ [SchedulerError m]
       \<and> (\<forall>j. n \<le> j \<and> j < length due \<longrightarrow> due ! j \<in> set (snd (tick now None clk flt db)))
       \<and> (\<forall>j<n. (due ! j)\<lparr>status := ''published'', scheduledAt := Some (clk j)\<rparr>
                    \<in> set (snd (tick now None clk flt db)))"
proof -
  from assms(2) have due: "due = filter (is_due ''scheduled'' now) db"
    by (simp add: db_select_due_def)
  have t: "tick now None clk flt db = tick_loop clk flt 0 due db"
    using assms(2) by (simp add: tick_def)
  have fn: "flt (0 + n) = Some m" using assms(4) by simp
  have fs: "\<And>j. j < n \<Longrightarrow> flt (0 + j) = None" using assms(5) by simp
  from assms(3) fn fs have ab: "tick_loop clk flt 0 due db
         = (map (\<lambda>r. Publishing (id' r)) (take (Suc n) due) @ [SchedulerError m],
            snd (tick_loop clk flt 0 (take n due) db))"
    by (rule tick_loop_abort)
  have dd: "distinct (map id' due)"
    using assms(1) by (simp add: due pk_ok_def distinct_map_filter)
  have sub: "set due \<subseteq> set db" by (simp add: due)
  have a: "fst (tick now None clk flt db)
           = map (\<lambda>r. Publishing (id' r)) (take (Suc n) due) @ [SchedulerError m]"
    by (simp only: t ab fst_conv)
  have s: "snd (tick now None clk flt db) = snd (tick_loop clk flt 0 (take n due) db)"
    by (simp only: t ab snd_conv)
  have b: "\<forall>j. n \<le> j \<and> j < length due \<longrightarrow> due ! j \<in> set (snd (tick now None clk flt db))"
  proof (intro allI impI)
    fix j assume j: "n \<le> j \<and> j < length due"
    then have "due ! j \<in> set due" by simp
    with sub have mem: "due ! j \<in> set db" by blast
    have "id' (due ! j) \<notin> set (map id' (take n due))"
    proof
      assume "id' (due ! j) \<in> set (map id' (take n due))"
      then obtain i where i: "i < length (take n due)" and ei: "map id' (take n due) ! i = id' (due ! j)"
        by (auto simp only: in_set_conv_nth length_map)
      from i have i_n: "i < n" and i_len: "i < length due" by simp_all
      from i ei have "id' (due ! i) = id' (due ! j)" by simp
      then have eq: "map id' due ! i = map id' due ! j" using i_len j by simp
      from i_len have li: "i < length (map id' due)" by simp
      from j have lj: "j < length (map id' due)" by simp
      from dd li lj have "(map id' due ! i = map id' due ! j) = (i = j)"
        by (rule nth_eq_iff_index_eq)
      with eq have "i = j" by blast
      with i_n j show False by simp
    qed
    with mem have "due ! j \<in> set (snd (tick_loop clk flt 0 (take n due) db))"
      by (rule tick_loop_keep)
    then show "due ! j \<in> set (snd (tick now None clk flt db))" by (simp only: s)
  qed
  have c: "\<forall>j<n. (due ! j)\<lparr>status := ''published'', scheduledAt := Some (clk j)\<rparr>
                    \<in> set (snd (tick now None clk flt db))"
  proof (intro allI impI)
    fix j assume j: "j < n"
    with assms(3) have jl: "j < length (take n due)" by simp
    have nf: "\<And>i. i < length (take n due) \<Longrightarrow> flt (0 + i) = None" using assms(5) by simp
    have dt: "distinct (map id' (take n due))"
      using dd by (simp add: take_map [symmetric] distinct_take)
    from j assms(3) have "due ! j \<in> set due" by simp
    with sub have mem: "due ! j \<in> set db" by blast
    have e: "id' (due ! j) = id' (take n due ! j)" using j by simp
    from nf dt jl mem e
    have "(due ! j)\<lparr>status := ''published'', scheduledAt := Some (clk (0 + j))\<rparr>
          \<in> set (snd (tick_loop clk flt 0 (take n due) db))"
      by (rule tick_loop_published)
    then show "(due ! j)\<lparr>status := ''published'', scheduledAt := Some (clk j)\<rparr>
                    \<in> set (snd (tick now None clk flt db))"
      by (simp only: s add_0)
  qed
  from a b c show ?thesis by (intro conjI)
qed

theorem tick_failure_aborts_rest_witness:
  "pk_ok [job_a, job_b, job_c]
   \<and> db_select_due None ''scheduled'' ''2024-01-01T00:03:00.000Z'' [job_a, job_b, job_c]
       = Inr [job_a, job_b, job_c]
   \<and> 1 < length [job_a, job_b, job_c]
   \<and> fault_at 1 ''SQLITE_BUSY: database is locked'' 1 = Some ''SQLITE_BUSY: database is locked''
   \<and> fault_at 1 ''SQLITE_BUSY: database is locked'' 0 = None
   \<and> fst (tick ''2024-01-01T00:03:00.000Z'' None
             (clock2 ''2024-01-01T00:03:00.050Z'' ''2024-01-01T00:03:00.060Z'')
             (fault_at 1 ''SQLITE_BUSY: database is locked'') [job_a, job_b, job_c])
      = [Publishing ''a1b2c3d4'', Publishing ''b5c6d7e8'',
         SchedulerError ''SQLITE_BUSY: database is locked'']
   \<and> job_b \<in> set (snd (tick ''2024-01-01T00:03:00.000Z'' None
             (clock2 ''2024-01-01T00:03:00.050Z'' ''2024-01-01T00:03:00.060Z'')
             (fault_at 1 ''SQLITE_BUSY: database is locked'') [job_a, job_b, job_c]))
   \<and> job_c \<in> set (snd (tick ''2024-01-01T00:03:00.000Z'' None
             (clock2 ''2024-01-01T00:03:00.050Z'' ''2024-01-01T00:03:00.060Z'')
             (fault_at 1 ''SQLITE_BUSY: database is locked'') [job_a, job_b, job_c]))
   \<and> job_a\<lparr>status := ''published'', scheduledAt := Some ''2024-01-01T00:03:00.050Z''\<rparr>
       \<in> set (snd (tick ''2024-01-01T00:03:00.000Z'' None
             (clock2 ''2024-01-01T00:03:00.050Z'' ''2024-01-01T00:03:00.060Z'')
             (fault_at 1 ''SQLITE_BUSY: database is locked'') [job_a, job_b, job_c]))"
proof -
  let ?now = "''2024-01-01T00:03:00.000Z''"
  let ?clk = "clock2 ''2024-01-01T00:03:00.050Z'' ''2024-01-01T00:03:00.060Z''"
  let ?m = "''SQLITE_BUSY: database is locked''"
  let ?db = "[job_a, job_b, job_c]"
  let ?db' = "snd (tick ?now None ?clk (fault_at 1 ?m) ?db)"
  have h1: "pk_ok ?db" by (simp add: pk_ok_def job_a_def job_b_def job_c_def)
  have h2: "db_select_due None ''scheduled'' ?now ?db = Inr ?db"
    by (simp add: db_select_due_def is_due_def job_a_def job_b_def job_c_def)
  have h3: "1 < length ?db" by simp
  have h4: "fault_at 1 ?m 1 = Some ?m" by (simp add: fault_at_def)
  have h5: "\<forall>j<1. fault_at 1 ?m j = None" by (simp add: fault_at_def)
  have h5': "fault_at 1 ?m 0 = None" by (simp add: fault_at_def)
  note T = tick_failure_aborts_rest [OF h1 h2 h3 h4 h5, of ?clk]
  from T have a: "fst (tick ?now None ?clk (fault_at 1 ?m) ?db)
      = map (\<lambda>r. Publishing (id' r)) (take (Suc 1) ?db) @ [SchedulerError ?m]"
    by (rule conjunct1)
  have a': "fst (tick ?now None ?clk (fault_at 1 ?m) ?db)
      = [Publishing ''a1b2c3d4'', Publishing ''b5c6d7e8'', SchedulerError ?m]"
    unfolding a by (simp add: job_a_def job_b_def)
  from T have b: "\<forall>j. 1 \<le> j \<and> j < length ?db \<longrightarrow> ?db ! j \<in> set ?db'"
    by blast
  from b [rule_format, of 1] have b1: "job_b \<in> set ?db'" by simp
  from b [rule_format, of 2] have b2: "job_c \<in> set ?db'" by simp
  from T have c: "\<forall>j<1. (?db ! j)\<lparr>status := ''published'', scheduledAt := Some (?clk j)\<rparr>
                    \<in> set ?db'"
    by blast
  from c [rule_format, of 0]
  have c0: "job_a\<lparr>status := ''published'', scheduledAt := Some ''2024-01-01T00:03:00.050Z''\<rparr>
            \<in> set ?db'"
    by (simp add: clock2_def)
  from h1 h2 h3 h4 h5' a' b1 b2 c0 show ?thesis by (intro conjI)
qed

subsection \<open>Job ids\<close>

text \<open>
  C6 as stated fails: \<open>makeId\<close> draws a random string and nothing remembers the ids
  of deleted rows. A create assigns \<open>a1b2c3d4\<close>, the row is deleted, and a later
  schedule whose random draw is the same assigns \<open>a1b2c3d4\<close> again.
\<close>

theorem makeId_reuse_counterexample:
  "create_media ''0.a1b2c3d4e5f'' ''2024-01-01T00:00:00.000Z'' None
        [''imageUrl'' \<mapsto> JString ''http://x/a.jpg''] []
      = (Inr (CreationId ''a1b2c3d4''),
         [\<lparr>id' = ''a1b2c3d4'', imageUrl = Some ''http://x/a.jpg'', caption = Some [],
           scheduledAt = None, status = ''created'',
           createdAt = ''2024-01-01T00:00:00.000Z''\<rparr>])
   \<and> delete_queue None ''a1b2c3d4''
        [\<lparr>id' = ''a1b2c3d4'', imageUrl = Some ''http://x/a.jpg'', caption = Some [],
           scheduledAt = None, status = ''created'',
           createdAt = ''2024-01-01T00:00:00.000Z''\<rparr>]
      = (Inr OkTrue, [])
   \<and> schedule ''0.a1b2c3d4e5f'' ''2024-01-01T01:00:30.000Z'' ''2024-01-01T00:00:30.000Z'' None
        [''imageUrl'' \<mapsto> JString ''http://x/b.jpg''] []
      = (Inr (JobResult ''a1b2c3d4'' (JString ''2024-01-01T01:00:30.000Z'')),
         [\<lparr>id' = ''a1b2c3d4'', imageUrl = Some ''http://x/b.jpg'', caption = Some [],
           scheduledAt = Some ''2024-01-01T01:00:30.000Z'', status = ''scheduled'',
           createdAt = ''2024-01-01T00:00:30.000Z''\<rparr>])"
  by (simp add: create_media_def schedule_def field_def db_insert_def makeId_def or_else_def
        delete_queue_def db_delete_def Let_def)

text \<open>
  C6, as the code has it. On a table that respects the primary key, every operation
  leaves a table that respects it, and the id that a successful create or schedule
  returns is the id of no row stored at that time.
\<close>

theorem stored_ids_stay_distinct:
  assumes "pk_ok db"
  shows "pk_ok (snd (create_media rnd now fault b db))
       \<and> pk_ok (snd (schedule rnd plus1h now fault b db))
       \<and> pk_ok (snd (publish_media rnd now fault b db))
       \<and> pk_ok (snd (delete_queue fault i db))
       \<and> pk_ok (snd (tick_loop clk flt k due db))
       \<and> pk_ok (snd (tick now fault clk flt db))
       \<and> (\<forall>i'. fst (create_media rnd now fault b db) = Inr (CreationId i')
              \<longrightarrow> i' \<notin> set (map id' db))
       \<and> (\<forall>i' t. fst (schedule rnd plus1h now fault b db) = Inr (JobResult i' t)
              \<longrightarrow> i' \<notin> set (map id' db))"
proof -
  have c1: "pk_ok (snd (create_media rnd now fault b db))
      \<and> (\<forall>i'. fst (create_media rnd now fault b db) = Inr (CreationId i')
              \<longrightarrow> i' \<notin> set (map id' db))"
    using create_media_cases [of rnd now fault b db]
  proof
    assume "\<exists>e. create_media rnd now fault b db = (Inl e, db)"
    then obtain e where "create_media rnd now fault b db = (Inl e, db)" by blast
    with assms show ?thesis by simp
  next
    assume "\<exists>db'. create_media rnd now fault b db = (Inr (CreationId (makeId rnd)), db')
         \<and> makeId rnd \<notin> set (map id' db)
         \<and> db_insert fault
              \<lparr>id' = makeId rnd, imageUrl = bind_param (field b ''imageUrl''),
               caption = bind_param (or_else (field b ''caption'') (JString [])),
               scheduledAt = None, status = ''created'', createdAt = now\<rparr> db = Inr db'"
    then obtain db' where r: "create_media rnd now fault b db = (Inr (CreationId (makeId rnd)), db')"
      and f: "makeId rnd \<notin> set (map id' db)"
      and ins: "db_insert fault
              \<lparr>id' = makeId rnd, imageUrl = bind_param (field b ''imageUrl''),
               caption = bind_param (or_else (field b ''caption'') (JString [])),
               scheduledAt = None, status = ''created'', createdAt = now\<rparr> db = Inr db'"
      by blast
    from pk_ok_insert [OF assms ins] r f show ?thesis by simp
  qed
  have c2: "pk_ok (snd (schedule rnd plus1h now fault b db))
      \<and> (\<forall>i' t. fst (schedule rnd plus1h now fault b db) = Inr (JobResult i' t)
              \<longrightarrow> i' \<notin> set (map id' db))"
    using schedule_cases [of rnd plus1h now fault b db]
  proof
    assume "\<exists>e. schedule rnd plus1h now fault b db = (Inl e, db)"
    then obtain e where "schedule rnd plus1h now fault b db = (Inl e, db)" by blast
    with assms show ?thesis by simp
  next
    assume "\<exists>db'. schedule rnd plus1h now fault b db
               = (Inr (JobResult (makeId rnd)
                    (or_else (field b ''scheduleTime'') (JString plus1h))), db')
         \<and> makeId rnd \<notin> set (map id' db)
         \<and> db_insert fault
              \<lparr>id' = makeId rnd, imageUrl = bind_param (field b ''imageUrl''),
               caption = bind_param (or_else (field b ''caption'') (JString [])),
               scheduledAt = bind_param (or_else (field b ''scheduleTime'') (JString plus1h)),
               status = ''scheduled'', createdAt = now\<rparr> db = Inr db'"
    then obtain db' where r: "schedule rnd plus1h now fault b db
               = (Inr (JobResult (makeId rnd)
                    (or_else (field b ''scheduleTime'') (JString plus1h))), db')"
      and f: "makeId rnd \<notin> set (map id' db)"
      and ins: "db_insert fault
              \<lparr>id' = makeId rnd, imageUrl = bind_param (field b ''imageUrl''),
               caption = bind_param (or_else (field b ''caption'') (JString [])),
               scheduledAt = bind_param (or_else (field b ''scheduleTime'') (JString plus1h)),
               status = ''scheduled'', createdAt = now\<rparr> db = Inr db'"
      by blast
    from pk_ok_insert [OF assms ins] r f show ?thesis by simp
  qed
  have c3: "pk_ok (snd (publish_media rnd now fault b db))"
    using assms by (simp only: pk_ok_def publish_media_ids)
  have c4: "pk_ok (snd (delete_queue fault i db))"
    using assms by (rule pk_ok_delete)
  have c5: "pk_ok (snd (tick_loop clk flt k due db))"
    using assms by (simp only: pk_ok_def tick_loop_ids)
  have c6: "pk_ok (snd (tick now fault clk flt db))"
    using assms by (simp only: pk_ok_def tick_ids)
  from c1 c2 c3 c4 c5 c6 show ?thesis by blast
qed

theorem stored_ids_stay_distinct_witness:
  "pk_ok [job_a]
   \<and> pk_ok (snd (create_media ''0.k3j5h7g9f2'' ''2024-01-01T00:04:00.000Z'' None
                 [''imageUrl'' \<mapsto> JString ''http://x/k.jpg''] [job_a]))
   \<and> create_media ''0.a1b2c3d4e5f'' ''2024-01-01T00:04:00.000Z'' None
        [''imageUrl'' \<mapsto> JString ''http://x/k.jpg''] [job_a]
      = (Inl (ServerError ''SQLITE_CONSTRAINT: UNIQUE constraint failed: queue.id''), [job_a])"
proof -
  have h: "pk_ok [job_a]" by (simp add: pk_ok_def)
  from stored_ids_stay_distinct [OF h, of "''0.k3j5h7g9f2''" "''2024-01-01T00:04:00.000Z''"
      None "[''imageUrl'' \<mapsto> JString ''http://x/k.jpg'']"]
  have p: "pk_ok (snd (create_media ''0.k3j5h7g9f2'' ''2024-01-01T00:04:00.000Z'' None
                 [''imageUrl'' \<mapsto> JString ''http://x/k.jpg''] [job_a]))"
    by blast
  have c: "create_media ''0.a1b2c3d4e5f'' ''2024-01-01T00:04:00.000Z'' None
        [''imageUrl'' \<mapsto> JString ''http://x/k.jpg''] [job_a]
      = (Inl (ServerError ''SQLITE_CONSTRAINT: UNIQUE constraint failed: queue.id''), [job_a])"
    by (simp add: create_media_def field_def makeId_def db_insert_def job_a_def Let_def)
  from h p c show ?thesis by (intro conjI)
qed

end
